theory Spec2Isabelle
  imports Main "HOL-Library.Sublist"
begin

section \<open>Conversion of a Faust DSP into an RNBO patch (architecture/max-msp/rnbo.py)\<close>

text \<open>
  The development embeds the graph construction of \<^verbatim>\<open>rnbo.py\<close>: the port planner
  \<^verbatim>\<open>generate_io_info\<close>, the per-parameter wiring of \<^verbatim>\<open>add_rnbo_object\<close> with
  \<^verbatim>\<open>add_midi_control\<close> and \<^verbatim>\<open>add_polyphony_control\<close>, and the assembly done by
  \<^verbatim>\<open>create_rnbo_patch\<close> and \<^verbatim>\<open>load_files_create_rnbo_patch\<close>.

  Python integers are \<^typ>\<open>int\<close>. The numeric fields of a parameter are taken to be
  integers (JSON floating point values are outside the model). Every exception the code
  can raise on such inputs is a value of \<open>error\<close>. Layout (\<^verbatim>\<open>patching_rect\<close>, font sizes)
  and the final writing of files are not part of the graph and are left out.
\<close>

subsection \<open>Exceptions\<close>

datatype error = UnboundLocalError | ZeroDivisionError | TypeError

subsection \<open>Rendering of integers and joining of strings\<close>

definition digit_chars :: "string" where
  "digit_chars = ''0123456789''"

text \<open>Python's \<^verbatim>\<open>str\<close> on a non-negative integer.\<close>

fun str_nat :: "nat \<Rightarrow> string" where
  "str_nat n = (if n < 10 then [digit_chars ! n] else str_nat (n div 10) @ [digit_chars ! (n mod 10)])"

declare str_nat.simps [simp del]

text \<open>Python's \<^verbatim>\<open>str\<close> on an integer, as an f-string renders it.\<close>

definition str_int :: "int \<Rightarrow> string" where
  "str_int i = (if i < 0 then CHR ''-'' # str_nat (nat (- i)) else str_nat (nat i))"

text \<open>\<^verbatim>\<open>" ".join(xs)\<close>\<close>

fun join_sp :: "string list \<Rightarrow> string" where
  "join_sp [] = []"
| "join_sp [x] = x"
| "join_sp (x # y # zs) = x @ '' '' @ join_sp (y # zs)"

text \<open>\<^verbatim>\<open>s.endswith(suf)\<close>\<close>

definition endswith :: "string \<Rightarrow> string \<Rightarrow> bool" where
  "endswith s suf = (length suf \<le> length s \<and> drop (length s - length suf) s = suf)"

subsection \<open>The patcher of the py2max library\<close>

text \<open>
  Modelled from the spec: the external py2max \<^verbatim>\<open>Patcher\<close> and \<^verbatim>\<open>Box\<close> classes are not
  part of the repository. They are modelled as the graph-builder interface of the
  specification (create a node, connect two ports): a patcher is the list of its boxes
  and the list of its patch lines, a box handle is the position of the box in its
  patcher, and \<^verbatim>\<open>add_line(src, dst, inlet=0, outlet=0)\<close> appends the line from
  outlet \<open>outlet\<close> of \<open>src\<close> to inlet \<open>inlet\<close> of \<open>dst\<close>. A box keeps the creation
  arguments the code passes.
\<close>

record io_entry =
  comment :: string
  index :: int
  tag :: string
  io_type :: string

record patchline =
  src :: nat
  outlet :: int
  dst :: nat
  inlet :: int

datatype box =
    Comment string
  | Textbox (box_text: string) (kw_numinlets: "int option") (kw_numoutlets: "int option")
  | Message string
  | Attrui (attr: string) (minimum: int) (maximum: int) (parameter_initial: int)
  | Codebox (codebox_code: string)
  | Rnbo (title: string) (numinlets: int) (numoutlets: int)
         (inletInfo: "io_entry list") (outletInfo: "io_entry list")
         (polyphony: "int option") (subpatcher: patcher)
and patcher = Patcher (boxes: "box list") (lines: "patchline list")

definition add_box :: "patcher \<Rightarrow> box \<Rightarrow> patcher \<times> nat" where
  "add_box p b = (Patcher (boxes p @ [b]) (lines p), length (boxes p))"

definition add_textbox :: "patcher \<Rightarrow> string \<Rightarrow> patcher \<times> nat" where
  "add_textbox p t = add_box p (Textbox t None None)"

definition add_line :: "patcher \<Rightarrow> nat \<Rightarrow> nat \<Rightarrow> int \<Rightarrow> int \<Rightarrow> patcher" where
  "add_line p s d inl outl =
     Patcher (boxes p) (lines p @ [\<lparr>src = s, outlet = outl, dst = d, inlet = inl\<rparr>])"

subsection \<open>Port planner\<close>

definition io_signal :: "string \<Rightarrow> int \<Rightarrow> io_entry" where
  "io_signal pre i = \<lparr>comment = [], index = i, tag = pre @ str_int i, io_type = ''signal''\<rparr>"

definition io_midi :: "string \<Rightarrow> int \<Rightarrow> io_entry" where
  "io_midi pre i = \<lparr>comment = [], index = i, tag = pre @ str_int i, io_type = ''midi''\<rparr>"

text \<open>
  The value of the loop variable after \<^verbatim>\<open>for i in range(1, n + 1)\<close>: the last value
  of the range, or whatever the variable held before when the range is empty
  (\<open>None\<close>: not bound yet).
\<close>

definition after_loop :: "int option \<Rightarrow> int \<Rightarrow> int option" where
  "after_loop prev n = (if 1 \<le> n then Some n else prev)"

definition generate_io_info ::
  "bool \<Rightarrow> int \<Rightarrow> int \<Rightarrow> error + (int \<times> int \<times> io_entry list \<times> io_entry list)" where
  "generate_io_info midi num_inputs num_outputs =
     (if midi then
        (let inlets = max 1 num_inputs + 1;
             inletInfo = map (io_signal ''in'') [1..num_inputs];
             i = after_loop None num_inputs;
             inletInfo = inletInfo @ [io_midi ''in'' inlets];
             outlets = max 1 num_outputs + 3;
             outletInfo = map (io_signal ''out'') [1..num_outputs];
             i = after_loop i num_outputs
         in case i of
              None \<Rightarrow> Inl UnboundLocalError
            | Some i \<Rightarrow> Inr (inlets, outlets, inletInfo, outletInfo @ [io_midi ''out'' i]))
      else
        (let inlets = max 1 num_inputs;
             inletInfo = map (io_signal ''in'') [1..num_inputs];
             outlets = max 1 num_outputs + 2;
             outletInfo = map (io_signal ''out'') [1..num_outputs]
         in Inr (inlets, outlets, inletInfo, outletInfo)))"

subsection \<open>Connecting the DSP to the effect\<close>

definition connect_dsp_effect :: "patcher \<Rightarrow> nat \<Rightarrow> nat \<Rightarrow> int \<Rightarrow> int \<Rightarrow> patcher" where
  "connect_dsp_effect patcher dsp_rnbo effect_rnbo dsp_num_outputs effect_num_inputs =
     (if (dsp_num_outputs, effect_num_inputs) = (1, 1) then
        add_line patcher dsp_rnbo effect_rnbo 0 0
      else if (dsp_num_outputs, effect_num_inputs) = (1, 2) then
        add_line (add_line patcher dsp_rnbo effect_rnbo 0 0) dsp_rnbo effect_rnbo 1 0
      else if (dsp_num_outputs, effect_num_inputs) = (2, 1) then
        add_line (add_line patcher dsp_rnbo effect_rnbo 0 0) dsp_rnbo effect_rnbo 0 1
      else if (dsp_num_outputs, effect_num_inputs) = (2, 2) then
        add_line (add_line patcher dsp_rnbo effect_rnbo 0 0) dsp_rnbo effect_rnbo 1 1
      else patcher)"

subsection \<open>Parameters\<close>

text \<open>
  One entry of the list built by \<^verbatim>\<open>extract_items_info\<close>: every entry has all seven
  keys. \<open>item_type\<close>, \<open>item_min\<close>, \<open>item_max\<close> and \<open>midi_info\<close> are the keys
  \<^verbatim>\<open>"type"\<close>, \<^verbatim>\<open>"min"\<close>, \<^verbatim>\<open>"max"\<close> and \<^verbatim>\<open>"midi"\<close>.
\<close>

record item =
  shortname :: string
  item_type :: string
  init :: int
  item_min :: int
  item_max :: int
  step :: int
  midi_info :: "string list"

definition build_label :: "string \<Rightarrow> string \<Rightarrow> bool \<Rightarrow> string" where
  "build_label ty sname test = (if test then ''RB_'' @ ty @ ''_'' @ sname else sname)"

subsection \<open>Polyphony control\<close>

definition add_polyphony_control ::
  "patcher \<Rightarrow> nat \<Rightarrow> nat \<Rightarrow> nat \<Rightarrow> bool \<Rightarrow> bool \<Rightarrow> patcher" where
  "add_polyphony_control sub_patch set_param_pitch set_param_gain set_param_gate is_freq is_gain =
     (let (sp, note_in) = add_textbox sub_patch ''notein'';
          sp = (if is_freq then
                  (let (sp, mtof) = add_textbox sp ''mtof'';
                       sp = add_line sp note_in mtof 0 0
                   in add_line sp mtof set_param_pitch 0 0)
                else add_line sp note_in set_param_pitch 0 0);
          sp = (if is_gain then
                  (let (sp, scale_gain) = add_textbox sp ''scale 0 127 0 1'';
                       sp = add_line sp note_in scale_gain 0 1
                   in add_line sp scale_gain set_param_gain 0 0)
                else add_line sp note_in set_param_gain 0 1);
          (sp, gate_op) = add_textbox sp ''> 0'';
          sp = add_line sp note_in gate_op 0 1
      in add_line sp gate_op set_param_gate 0 0)"

subsection \<open>MIDI control of one parameter\<close>

definition midi_mapping :: "(string \<times> string \<times> string) list" where
  "midi_mapping =
     [(''ctrl'', ''ctlin'', ''ctlout''),
      (''chanpress'', ''touchin'', ''touchout''),
      (''keyon'', ''notein'', ''noteout''),
      (''keyoff'', ''notein'', ''noteout''),
      (''key'', ''notein'', ''noteout''),
      (''pitchwheel'', ''bendin @bendmode 1'', ''bendout @bendmode 1''),
      (''pgm'', ''pgmin'', ''pgmout'')]"

definition unsupported_msg :: "string \<Rightarrow> string" where
  "unsupported_msg midi_type =
     ''MIDI control type '' @ [CHR 0x27] @ midi_type @ [CHR 0x27] @ '' not supported''"

text \<open>
  The result is the returned flag, the sub-patcher after the call and the messages
  given to \<^verbatim>\<open>logging.error\<close>.
\<close>

definition add_midi_control ::
  "item \<Rightarrow> patcher \<Rightarrow> nat \<Rightarrow> nat \<Rightarrow> bool \<times> patcher \<times> string list" where
  "add_midi_control item sub_patch set_param codebox =
     (case midi_info item of
        [] \<Rightarrow> (False, sub_patch, [])
      | midi_type # args \<Rightarrow>
          (case map_of midi_mapping midi_type of
             None \<Rightarrow> (False, sub_patch, [unsupported_msg midi_type])
           | Some (m_in, m_out) \<Rightarrow>
               (let midi_args = join_sp args;
                    (sp, midi_in) = add_textbox sub_patch (m_in @ '' '' @ midi_args);
                    (sp, midi_out) = add_textbox sp (m_out @ '' '' @ midi_args);
                    scaling_in =
                      (if midi_type = ''pitchwheel''
                       then ''scale -1 1 '' @ str_int (item_min item) @ '' '' @ str_int (item_max item)
                       else ''scale 0 127 '' @ str_int (item_min item) @ '' '' @ str_int (item_max item));
                    scaling_out =
                      (if midi_type = ''pitchwheel''
                       then ''scale '' @ str_int (item_min item) @ '' '' @ str_int (item_max item) @ '' -1 -1''
                       else ''scale '' @ str_int (item_min item) @ '' '' @ str_int (item_max item) @ '' 0 127'');
                    (sp, scaling_in_box) = add_textbox sp scaling_in;
                    (sp, scaling_out_box) = add_textbox sp scaling_out;
                    sp = add_line sp midi_in scaling_in_box 0 0;
                    sp = add_line sp scaling_in_box set_param 0 0;
                    sp = add_line sp codebox scaling_out_box 0 0;
                    sp = add_line sp scaling_out_box midi_out 0 0
                in (True, sp, []))))"

subsection \<open>Building one rnbo\<^verbatim>\<open>~\<close> object\<close>

text \<open>
  The state of the parameter loop of \<^verbatim>\<open>add_rnbo_object\<close>: the outer patcher, the
  sub-patcher of the rnbo\<^verbatim>\<open>~\<close> box, the five polyphony variables and the log.
  A \<^verbatim>\<open>Box\<close> variable that is \<^verbatim>\<open>None\<close> is \<open>None\<close>; any box is truthy.
\<close>

record build_state =
  outer :: patcher
  sub_patch :: patcher
  set_param_pitch :: "nat option"
  set_param_gain :: "nat option"
  set_param_gate :: "nat option"
  is_freq :: bool
  is_gain :: bool
  logged :: "string list"

text \<open>
  The first half of the body of the loop over \<^verbatim>\<open>items_info_list\<close>: the control in
  the outer patcher and the \<^verbatim>\<open>param\<close> box in the sub-patcher; the result is the two
  patchers and the \<^verbatim>\<open>param\<close> box. The division that computes the unused
  \<^verbatim>\<open>steps_value\<close> raises when the step of a slider or numeric entry is zero.
\<close>

definition add_param_control ::
  "string \<Rightarrow> nat \<Rightarrow> item \<Rightarrow> patcher \<Rightarrow> patcher \<Rightarrow> error + (patcher \<times> patcher \<times> nat)" where
  "add_param_control label rnbo item patcher sp =
     (if item_type item \<in> set [''button'', ''checkbox''] then
        (let (p, toggle) = add_textbox patcher ''toggle'';
             (p, param_wrap) = add_box p (Attrui label 0 1 0);
             p = add_line p toggle param_wrap 0 0;
             p = add_line p param_wrap rnbo 0 0;
             (sp, param) = add_textbox sp (''param '' @ label @ '' 0 @min 0 @max 1'')
         in Inr (p, sp, param))
      else if step item = 0 then Inl ZeroDivisionError
      else
        (let (p, param_wrap) =
               add_box patcher (Attrui label (item_min item) (item_max item) (init item));
             p = add_line p param_wrap rnbo 0 0;
             (sp, param) =
               add_textbox sp
                 (''param '' @ label @ '' '' @ str_int (init item) @ '' @min ''
                    @ str_int (item_min item) @ '' @max '' @ str_int (item_max item))
         in Inr (p, sp, param)))"

text \<open>
  The analysis of the short name for polyphony, run when the unit has MIDI and voices:
  the first matching suffix of the chain decides.
\<close>

definition analyse_shortname :: "string \<Rightarrow> nat \<Rightarrow> build_state \<Rightarrow> build_state" where
  "analyse_shortname sname set_param st =
     (if endswith sname ''freq'' then
        st\<lparr>set_param_pitch := Some set_param, is_freq := True\<rparr>
      else if endswith sname ''key'' then
        st\<lparr>set_param_pitch := Some set_param, is_freq := False\<rparr>
      else if endswith sname ''gain'' then
        st\<lparr>set_param_gain := Some set_param, is_gain := True\<rparr>
      else if endswith sname ''velocity'' then
        st\<lparr>set_param_gain := Some set_param, is_gain := False\<rparr>
      else if endswith sname ''gate'' then
        st\<lparr>set_param_gate := Some set_param\<rparr>
      else st)"

text \<open>The body of the loop over \<^verbatim>\<open>items_info_list\<close>.\<close>

definition add_param ::
  "bool \<Rightarrow> int \<Rightarrow> bool \<Rightarrow> nat \<Rightarrow> nat \<Rightarrow> item \<Rightarrow> build_state \<Rightarrow> error + build_state" where
  "add_param midi nvoices test rnbo codebox item st =
     (let sname = shortname item;
          label = build_label (item_type item) sname test;
          (sp, set_param) = add_textbox (sub_patch st) (''set '' @ label)
      in case add_param_control label rnbo item (outer st) sp of
           Inl e \<Rightarrow> Inl e
         | Inr (p, sp, param) \<Rightarrow>
             (let sp = add_line sp param set_param 0 0;
                  sp = add_line sp set_param codebox 0 0;
                  st = st\<lparr>outer := p, sub_patch := sp\<rparr>;
                  st = (if midi \<and> nvoices > 0 then analyse_shortname sname set_param st else st)
              in if midi then
                   (let (ok, sp, msgs) = add_midi_control item (sub_patch st) set_param codebox
                    in Inr (st\<lparr>sub_patch := sp, logged := logged st @ msgs\<rparr>))
                 else Inr st))"

fun add_params ::
  "bool \<Rightarrow> int \<Rightarrow> bool \<Rightarrow> nat \<Rightarrow> nat \<Rightarrow> item list \<Rightarrow> build_state \<Rightarrow> error + build_state" where
  "add_params midi nvoices test rnbo codebox [] st = Inr st"
| "add_params midi nvoices test rnbo codebox (item # items) st =
     (case add_param midi nvoices test rnbo codebox item st of
        Inl e \<Rightarrow> Inl e
      | Inr st' \<Rightarrow> add_params midi nvoices test rnbo codebox items st')"

definition add_input :: "nat \<Rightarrow> int \<Rightarrow> patcher \<Rightarrow> patcher" where
  "add_input codebox i sp =
     (let (sp, input_box) = add_textbox sp (''in~ '' @ str_int (i + 1))
      in add_line sp input_box codebox i 0)"

definition add_output :: "nat \<Rightarrow> int \<Rightarrow> patcher \<Rightarrow> patcher" where
  "add_output codebox i sp =
     (let (sp, output_box) = add_textbox sp (''out~ '' @ str_int (i + 1))
      in add_line sp codebox output_box 0 i)"

text \<open>
  The sub-patcher of a new rnbo\<^verbatim>\<open>~\<close> box after the codebox, the placeholder input for
  a unit without inputs, the input boxes and the output boxes have been added; the
  second component is the codebox.
\<close>

definition new_sub_patch :: "string \<Rightarrow> int \<Rightarrow> int \<Rightarrow> patcher \<times> nat" where
  "new_sub_patch code num_inputs num_outputs =
     (let (sp, codebox) = add_box (Patcher [] []) (Codebox code);
          sp = (if num_inputs = 0 then
                  (let (sp, b) = add_textbox sp ''in~ 1'' in add_line sp b codebox 0 0)
                else sp);
          sp = fold (add_input codebox) [0..num_inputs - 1] sp;
          sp = fold (add_output codebox) [0..num_outputs - 1] sp
      in (sp, codebox))"

text \<open>The state in which the loop over the parameters starts.\<close>

definition initial_state :: "patcher \<Rightarrow> patcher \<Rightarrow> build_state" where
  "initial_state p sp =
     \<lparr>outer = p, sub_patch = sp, set_param_pitch = None, set_param_gain = None,
      set_param_gate = None, is_freq = False, is_gain = False, logged = []\<rparr>"

text \<open>
  The step after the loop: the polyphony control is added when the unit has MIDI and
  voices and the three boxes were found; the result is the sub-patcher.
\<close>

definition polyphony_step :: "bool \<Rightarrow> int \<Rightarrow> build_state \<Rightarrow> patcher" where
  "polyphony_step midi nvoices st =
     (if midi \<and> nvoices > 0 then
        (case (set_param_pitch st, set_param_gain st, set_param_gate st) of
           (Some pitch, Some gain, Some gate) \<Rightarrow>
             add_polyphony_control (sub_patch st) pitch gain gate (is_freq st) (is_gain st)
         | _ \<Rightarrow> sub_patch st)
      else sub_patch st)"

text \<open>
  \<^verbatim>\<open>add_rnbo_object\<close> returns the rnbo\<^verbatim>\<open>~\<close> box; here the patcher after the call, the
  handle of the box and the log. The box owns its sub-patcher, which the code fills
  after the box is in the patcher: the model builds the sub-patcher next to the outer
  patcher and stores it in the box at the end. A list that is \<^verbatim>\<open>None\<close> cannot be
  iterated.
\<close>

definition add_rnbo_object ::
  "patcher \<Rightarrow> string \<Rightarrow> string \<Rightarrow> item list option \<Rightarrow> bool \<Rightarrow> int \<Rightarrow> bool \<Rightarrow> int \<Rightarrow> int
     \<Rightarrow> error + (patcher \<times> nat \<times> string list)" where
  "add_rnbo_object patcher dsp_name code items_info_list midi nvoices test num_inputs num_outputs =
     (let poly = (if midi \<and> nvoices > 0 then Some nvoices else None)
      in case generate_io_info midi num_inputs num_outputs of
           Inl e \<Rightarrow> Inl e
         | Inr (inlets, outlets, inlet_info, outlet_info) \<Rightarrow>
             (let (p, rnbo) =
                    add_box patcher
                      (Rnbo dsp_name inlets outlets inlet_info outlet_info poly (Patcher [] []));
                  (sp, codebox) = new_sub_patch code num_inputs num_outputs
              in case items_info_list of
                   None \<Rightarrow> Inl TypeError
                 | Some items \<Rightarrow>
                     (case add_params midi nvoices test rnbo codebox items (initial_state p sp) of
                        Inl e \<Rightarrow> Inl e
                      | Inr st \<Rightarrow>
                          Inr (Patcher
                                 ((boxes (outer st))
                                    [rnbo := Rnbo dsp_name inlets outlets inlet_info outlet_info
                                               poly (polyphony_step midi nvoices st)])
                                 (lines (outer st)),
                               rnbo, logged st))))"

subsection \<open>Global MIDI, export machinery and audio drivers\<close>

definition connect_midi :: "patcher \<Rightarrow> nat \<Rightarrow> nat \<Rightarrow> nat \<Rightarrow> patcher" where
  "connect_midi patcher rnbo midi_in midi_out =
     (let inlet_index = numinlets (boxes patcher ! rnbo) - 1;
          outlet_index = numoutlets (boxes patcher ! rnbo) - 3;
          p = add_line patcher midi_in rnbo inlet_index 0
      in add_line p rnbo midi_out 0 outlet_index)"

definition add_compile_test :: "patcher \<Rightarrow> nat \<Rightarrow> string \<Rightarrow> string \<Rightarrow> patcher" where
  "add_compile_test patcher rnbo export_path cpp_filename =
     (let (p, load_bang) = add_textbox patcher ''loadbang'';
          (p, dump_target_config) =
            add_box p (Message ''dumptargetconfig cpp-export cpp-code-export'');
          (p, tb) = add_textbox p ''t b b s'';
          (p, set_path) =
            add_box p (Message (''set output_path '' @ export_path @ '', set export_name ''
                                  @ cpp_filename));
          (p, dict1) = add_textbox p ''dict'';
          (p, route_dict) = add_textbox p ''route dictionary'';
          (p, export) = add_box p (Message ''export cpp-export cpp-code-export $1'');
          (p, route) = add_textbox p ''route targetconfig'';
          p = add_line p load_bang dump_target_config 0 0;
          p = add_line p dump_target_config rnbo 0 0;
          p = add_line p tb dict1 0 0;
          p = add_line p tb set_path 0 1;
          p = add_line p tb dict1 1 2;
          p = add_line p set_path dict1 0 0;
          p = add_line p dict1 route_dict 0 0;
          p = add_line p route_dict export 0 0;
          p = add_line p route tb 0 0;
          p = add_line p export rnbo 0 0
      in add_line p rnbo route 0 (numoutlets (boxes p ! rnbo) - 1))"

text \<open>\<^verbatim>\<open>" ".join(str(i + 1) for i in range(n))\<close>\<close>

definition channel_numbers :: "int \<Rightarrow> string" where
  "channel_numbers n = join_sp (map (\<lambda>i. str_int (i + 1)) [0..n - 1])"

definition create_audio_output :: "patcher \<Rightarrow> nat \<Rightarrow> int \<Rightarrow> patcher" where
  "create_audio_output patcher rnbo num_outputs =
     (let (p, toggle) = add_textbox patcher ''toggle'';
          dac_str = ''dac~ '' @ channel_numbers num_outputs;
          (p, audio_out) = add_box p (Textbox dac_str (Some num_outputs) None);
          p = add_line p toggle audio_out 0 0
      in fold (\<lambda>i p. add_line p rnbo audio_out i i) [0..num_outputs - 1] p)"

definition create_audio_input :: "patcher \<Rightarrow> nat \<Rightarrow> int \<Rightarrow> patcher" where
  "create_audio_input patcher rnbo num_inputs =
     (let adc_str = ''adc~ '' @ channel_numbers num_inputs;
          (p, audio_in) = add_box patcher (Textbox adc_str None (Some num_inputs))
      in fold (\<lambda>i p. add_line p audio_in rnbo i i) [0..num_inputs - 1] p)"

subsection \<open>Assembling the patch\<close>

text \<open>
  \<^verbatim>\<open>create_rnbo_patch\<close> saves the patcher and returns nothing. The model returns the
  patcher that is saved, together with the final values of the local box variables
  (\<open>None\<close> where the variable was never assigned) and the log.
\<close>

record patch_result =
  res_patcher :: patcher
  res_dsp_rnbo :: nat
  res_midi_in :: "nat option"
  res_midi_out :: "nat option"
  res_effect_rnbo :: "nat option"
  res_log :: "string list"

text \<open>
  A Python string is truthy when it is neither \<^verbatim>\<open>None\<close> nor empty.
\<close>

definition truthy :: "string option \<Rightarrow> bool" where
  "truthy s = (case s of None \<Rightarrow> False | Some t \<Rightarrow> t \<noteq> [])"

text \<open>
  The global MIDI boxes, added and connected to the DSP when \<^verbatim>\<open>midi\<close> holds. The
  variables \<^verbatim>\<open>midi_in\<close> and \<^verbatim>\<open>midi_out\<close> are bound exactly in that case: the second
  component is their pair.
\<close>

definition add_global_midi :: "bool \<Rightarrow> patcher \<Rightarrow> nat \<Rightarrow> patcher \<times> (nat \<times> nat) option" where
  "add_global_midi midi patcher dsp_rnbo =
     (if midi then
        (let (p, midi_in) = add_textbox patcher ''midiin'';
             (p, midi_out) = add_textbox p ''midiout''
         in (connect_midi p dsp_rnbo midi_in midi_out, Some (midi_in, midi_out)))
      else (patcher, None))"

text \<open>
  The effect, created and connected when \<^verbatim>\<open>effect_codebox_code\<close> is truthy: the
  result is the patcher, the effect box if there is one, and the log of its creation.
\<close>

definition add_effect ::
  "patcher \<Rightarrow> nat \<Rightarrow> (nat \<times> nat) option \<Rightarrow> int \<Rightarrow> bool \<Rightarrow> string option \<Rightarrow> item list option
     \<Rightarrow> int \<Rightarrow> int \<Rightarrow> error + (patcher \<times> nat option \<times> string list)" where
  "add_effect patcher dsp_rnbo midi_io dsp_num_outputs midi effect_codebox_code
       effect_items_info_list effect_num_inputs effect_num_outputs =
     (if truthy effect_codebox_code then
        (case add_rnbo_object patcher ''Effect'' (the effect_codebox_code)
                effect_items_info_list midi (- 1) False effect_num_inputs effect_num_outputs of
           Inl e \<Rightarrow> Inl e
         | Inr (p, effect_rnbo, log2) \<Rightarrow>
             (let p = connect_dsp_effect p dsp_rnbo effect_rnbo dsp_num_outputs effect_num_inputs;
                  p = (case midi_io of
                         Some (midi_in, midi_out) \<Rightarrow> connect_midi p effect_rnbo midi_in midi_out
                       | None \<Rightarrow> p)
              in Inr (p, Some effect_rnbo, log2)))
      else Inr (patcher, None, []))"

text \<open>
  The end of \<^verbatim>\<open>create_rnbo_patch\<close>: the export machinery, the audio output on the
  effect if there is one and on the DSP otherwise, and the audio input.
\<close>

definition add_compile_and_audio ::
  "patcher \<Rightarrow> nat \<Rightarrow> nat option \<Rightarrow> bool \<Rightarrow> string \<Rightarrow> string \<Rightarrow> int \<Rightarrow> int \<Rightarrow> int \<Rightarrow> patcher" where
  "add_compile_and_audio patcher dsp_rnbo effect_rnbo compile export_path cpp_filename
       dsp_num_inputs dsp_num_outputs effect_num_outputs =
     (let p = (if compile then add_compile_test patcher dsp_rnbo export_path cpp_filename
               else patcher);
          p = (case effect_rnbo of
                 Some e \<Rightarrow> create_audio_output p e effect_num_outputs
               | None \<Rightarrow> create_audio_output p dsp_rnbo dsp_num_outputs)
      in if dsp_num_inputs > 0 then create_audio_input p dsp_rnbo dsp_num_inputs else p)"

definition create_rnbo_patch ::
  "string \<Rightarrow> string \<Rightarrow> string \<Rightarrow> string \<Rightarrow> item list \<Rightarrow> int \<Rightarrow> int \<Rightarrow> bool \<Rightarrow> int
     \<Rightarrow> string option \<Rightarrow> item list option \<Rightarrow> int \<Rightarrow> int \<Rightarrow> bool \<Rightarrow> bool
     \<Rightarrow> error + patch_result" where
  "create_rnbo_patch dsp_name export_path cpp_filename dsp_codebox_code dsp_items_info_list
       dsp_num_inputs dsp_num_outputs midi nvoices effect_codebox_code effect_items_info_list
       effect_num_inputs effect_num_outputs compile test =
     (let (p, c) = add_box (Patcher [] [])
                     (Comment ''Faust generated RNBO patch, Copyright (c) 2023 Grame'')
      in case add_rnbo_object p dsp_name dsp_codebox_code (Some dsp_items_info_list) midi nvoices
                test dsp_num_inputs dsp_num_outputs of
           Inl e \<Rightarrow> Inl e
         | Inr (p, dsp_rnbo, log1) \<Rightarrow>
             (let (p, midi_io) = add_global_midi midi p dsp_rnbo
              in case add_effect p dsp_rnbo midi_io dsp_num_outputs midi effect_codebox_code
                        effect_items_info_list effect_num_inputs effect_num_outputs of
                   Inl e \<Rightarrow> Inl e
                 | Inr (p, effect_rnbo, log2) \<Rightarrow>
                     Inr \<lparr>res_patcher =
                            add_compile_and_audio p dsp_rnbo effect_rnbo compile export_path
                              cpp_filename dsp_num_inputs dsp_num_outputs effect_num_outputs,
                          res_dsp_rnbo = dsp_rnbo,
                          res_midi_in = map_option fst midi_io,
                          res_midi_out = map_option snd midi_io,
                          res_effect_rnbo = effect_rnbo,
                          res_log = log1 @ log2\<rparr>))"

subsection \<open>Loading the files\<close>

text \<open>
  What \<^verbatim>\<open>load_files_create_rnbo_patch\<close> reads from one JSON file: the list of
  \<^verbatim>\<open>extract_items_info\<close>, the keys \<^verbatim>\<open>"inputs"\<close> and \<^verbatim>\<open>"outputs"\<close>, and the pair of
  \<^verbatim>\<open>get_midi_and_nvoices\<close>, whose components are \<^verbatim>\<open>None\<close> when the options do not
  give them.
\<close>

record json_info =
  js_items :: "item list"
  js_inputs :: int
  js_outputs :: int
  js_midi :: "bool option"
  js_nvoices :: "int option"

text \<open>\<^verbatim>\<open>options[1] if options[1] else -1\<close>: zero is falsy.\<close>

definition json_nvoices_or_minus1 :: "int option \<Rightarrow> int" where
  "json_nvoices_or_minus1 opt = (case opt of None \<Rightarrow> - 1 | Some v \<Rightarrow> if v \<noteq> 0 then v else - 1)"

text \<open>
  The voice count passed in the branch with an effect,
  \<^verbatim>\<open>nvoices if nvoices > 0 else options[1] if options[1] else -1\<close>:
  comparing \<^verbatim>\<open>None\<close> with \<^verbatim>\<open>0\<close> raises \<^verbatim>\<open>TypeError\<close>.
\<close>

definition nvoices_with_effect :: "int option \<Rightarrow> int option \<Rightarrow> error + int" where
  "nvoices_with_effect nvoices opt =
     (case nvoices of
        None \<Rightarrow> Inl TypeError
      | Some n \<Rightarrow> Inr (if n > 0 then n else json_nvoices_or_minus1 opt))"

text \<open>
  The voice count passed in the branch without an effect,
  \<^verbatim>\<open>nvoices if nvoices is not None and nvoices > 0 else options[1] if options[1] else -1\<close>.
\<close>

definition nvoices_without_effect :: "int option \<Rightarrow> int option \<Rightarrow> error + int" where
  "nvoices_without_effect nvoices opt =
     (case nvoices of
        None \<Rightarrow> Inr (json_nvoices_or_minus1 opt)
      | Some n \<Rightarrow> Inr (if n > 0 then n else json_nvoices_or_minus1 opt))"

text \<open>
  The files are read before anything else happens; the model takes what was read
  instead of the paths: the text of the DSP codebox file, the content of the DSP JSON
  file, and for the effect the text and the JSON content, each \<open>None\<close> when its path
  is \<^verbatim>\<open>None\<close>. \<^verbatim>\<open>midi or options[0]\<close> is used for its truth value only.
\<close>

definition load_files_create_rnbo_patch ::
  "string \<Rightarrow> string \<Rightarrow> json_info \<Rightarrow> string option \<Rightarrow> json_info option \<Rightarrow> string \<Rightarrow> string
     \<Rightarrow> bool \<Rightarrow> int option \<Rightarrow> bool \<Rightarrow> bool \<Rightarrow> error + patch_result" where
  "load_files_create_rnbo_patch dsp_name dsp_codebox dsp_json effect_codebox effect_json
       export_path cpp_filename midi nvoices compile test =
     (case (effect_codebox, effect_json) of
        (Some effect_codebox_code, Some ej) \<Rightarrow>
          (case nvoices_with_effect nvoices (js_nvoices dsp_json) of
             Inl e \<Rightarrow> Inl e
           | Inr nv \<Rightarrow>
               create_rnbo_patch dsp_name export_path cpp_filename dsp_codebox
                 (js_items dsp_json) (js_inputs dsp_json) (js_outputs dsp_json)
                 (midi \<or> js_midi dsp_json = Some True) nv
                 (Some effect_codebox_code) (Some (js_items ej)) (js_inputs ej) (js_outputs ej)
                 compile test)
      | _ \<Rightarrow>
          (case nvoices_without_effect nvoices (js_nvoices dsp_json) of
             Inl e \<Rightarrow> Inl e
           | Inr nv \<Rightarrow>
               create_rnbo_patch dsp_name export_path cpp_filename dsp_codebox
                 (js_items dsp_json) (js_inputs dsp_json) (js_outputs dsp_json)
                 (midi \<or> js_midi dsp_json = Some True) nv
                 None None (- 1) (- 1) compile test))"

subsection \<open>Notions used in the statements\<close>

text \<open>
  A patcher extends another when it has the same boxes and lines and possibly more
  after them: box handles of the smaller patcher denote the same boxes in the larger.
\<close>

definition extends :: "patcher \<Rightarrow> patcher \<Rightarrow> bool" where
  "extends p q = (prefix (boxes p) (boxes q) \<and> prefix (lines p) (lines q))"

text \<open>An audio input box: a text box whose text starts with \<^verbatim>\<open>adc~\<close> and a blank.\<close>

definition is_adc :: "box \<Rightarrow> bool" where
  "is_adc b = (case b of Textbox t _ _ \<Rightarrow> take 5 t = ''adc~ '' | _ \<Rightarrow> False)"

definition no_adc :: "patcher \<Rightarrow> bool" where
  "no_adc p = (\<forall>b\<in>set (boxes p). \<not> is_adc b)"


text \<open>
  The boxes that the loop over the parameters puts into a sub-patcher: \<^verbatim>\<open>set\<close> and
  \<^verbatim>\<open>param\<close> boxes, the MIDI receive and send boxes of the mapping, and \<^verbatim>\<open>scale\<close> boxes.
\<close>

definition loop_box :: "box \<Rightarrow> bool" where
  "loop_box b =
     (case b of
        Textbox t _ _ \<Rightarrow>
          prefix ''set '' t \<or> prefix ''param '' t \<or> prefix ''scale '' t \<or>
          (\<exists>m\<in>set midi_mapping. prefix (fst (snd m) @ '' '') t \<or> prefix (snd (snd m) @ '' '') t)
      | _ \<Rightarrow> False)"


subsection \<open>Example runs\<close>


text \<open>
  A DSP with one input and two outputs and an effect with two inputs and two outputs,
  without parameters, MIDI off.
\<close>

definition effect_audio_example :: "error + patch_result" where
  "effect_audio_example =
     create_rnbo_patch ''d'' ''x'' ''y'' ''code'' [] 1 2 False 0 (Some ''fx'') (Some []) 2 2
       False False"






section \<open>Properties\<close>

subsection \<open>Basic facts about the patcher operations\<close>

lemma add_line_sel [simp]:
  "boxes (add_line p s d i outl) = boxes p"
  "lines (add_line p s d i outl) = lines p @ [\<lparr>src = s, outlet = outl, dst = d, inlet = i\<rparr>]"
  by (simp_all add: add_line_def)

lemma add_box_sel [simp]:
  "boxes (fst (add_box p b)) = boxes p @ [b]"
  "lines (fst (add_box p b)) = lines p"
  "snd (add_box p b) = length (boxes p)"
  by (simp_all add: add_box_def)

lemma add_textbox_sel [simp]:
  "boxes (fst (add_textbox p t)) = boxes p @ [Textbox t None None]"
  "lines (fst (add_textbox p t)) = lines p"
  "snd (add_textbox p t) = length (boxes p)"
  by (simp_all add: add_textbox_def)

subsection \<open>Patchers only grow\<close>

lemma extends_refl [simp]: "extends p p"
  by (simp add: extends_def)

lemma extends_trans: "extends p q \<Longrightarrow> extends q r \<Longrightarrow> extends p r"
  by (auto simp: extends_def prefix_def)

lemma extends_add_line [simp]: "extends p q \<Longrightarrow> extends p (add_line q s d i outl)"
  by (simp add: extends_def)

lemma extends_add_box [simp]: "extends p q \<Longrightarrow> extends p (fst (add_box q b))"
  by (simp add: extends_def)

lemma extends_add_textbox [simp]: "extends p q \<Longrightarrow> extends p (fst (add_textbox q t))"
  by (simp add: extends_def)

lemma extends_nth: "extends p q \<Longrightarrow> k < length (boxes p) \<Longrightarrow> boxes q ! k = boxes p ! k"
  by (auto simp: extends_def prefix_def nth_append)




lemma fold_add_line_from:
  "boxes (fold (\<lambda>i p. add_line p a b i i) xs p) = boxes p \<and>
   lines (fold (\<lambda>i p. add_line p a b i i) xs p) =
     lines p @ map (\<lambda>i. \<lparr>src = a, outlet = i, dst = b, inlet = i\<rparr>) xs"
  by (induction xs arbitrary: p) simp_all

lemma add_param_control_outer:
  assumes "add_param_control label rnbo item p sp = Inr (p', sp', param)"
  shows "extends p p'" and "no_adc p \<Longrightarrow> no_adc p'"
  using assms
  by (auto simp: add_param_control_def Let_def case_prod_beta extends_def no_adc_def is_adc_def
      split: if_splits)

lemma analyse_shortname_sel [simp]:
  "outer (analyse_shortname s k st) = outer st"
  "sub_patch (analyse_shortname s k st) = sub_patch st"
  "logged (analyse_shortname s k st) = logged st"
  by (simp_all add: analyse_shortname_def)

lemma add_param_outer:
  assumes "add_param midi nvoices test rnbo codebox item st = Inr st'"
  shows "extends (outer st) (outer st')" and "no_adc (outer st) \<Longrightarrow> no_adc (outer st')"
proof -
  let ?label = "build_label (item_type item) (shortname item) test"
  let ?sp = "fst (add_textbox (sub_patch st) (''set '' @ ?label))"
  from assms obtain p sp param where
    c: "add_param_control ?label rnbo item (outer st) ?sp = Inr (p, sp, param)"
    by (auto simp: add_param_def Let_def case_prod_beta split: sum.splits)
  from assms c have o: "outer st' = p"
    by (auto simp: add_param_def Let_def case_prod_beta split: if_splits)
  show "extends (outer st) (outer st')" using add_param_control_outer(1)[OF c] o by simp
  show "no_adc (outer st) \<Longrightarrow> no_adc (outer st')" using add_param_control_outer(2)[OF c] o by simp
qed

lemma add_params_outer:
  assumes "add_params midi nvoices test rnbo codebox items st = Inr st'"
  shows "extends (outer st) (outer st') \<and> (no_adc (outer st) \<longrightarrow> no_adc (outer st'))"
  using assms
proof (induction items arbitrary: st)
  case Nil
  then show ?case by simp
next
  case (Cons item items)
  then obtain st1 where s1: "add_param midi nvoices test rnbo codebox item st = Inr st1"
    and s2: "add_params midi nvoices test rnbo codebox items st1 = Inr st'"
    by (auto split: sum.splits)
  from add_param_outer[OF s1] Cons.IH[OF s2] show ?case
    using extends_trans by blast
qed



lemma snd_new_sub_patch [simp]: "snd (new_sub_patch code nin nout) = 0"
  by (simp add: new_sub_patch_def Let_def case_prod_beta)

lemma add_rnbo_object_Inl:
  "generate_io_info midi nin nout = Inl e \<Longrightarrow>
   add_rnbo_object p name code items midi nv test nin nout = Inl e"
  by (simp add: add_rnbo_object_def)

lemma add_rnbo_object_None:
  "generate_io_info midi nin nout = Inr g \<Longrightarrow>
   add_rnbo_object p name code None midi nv test nin nout = Inl TypeError"
  by (simp add: add_rnbo_object_def Let_def case_prod_beta)

lemma add_rnbo_object_eq:
  assumes "generate_io_info midi nin nout = Inr (inl, outl, ii, oi)"
  shows "add_rnbo_object p name code (Some its) midi nv test nin nout =
     (case add_params midi nv test (length (boxes p)) 0 its
             (initial_state
                (Patcher (boxes p @ [Rnbo name inl outl ii oi
                                       (if midi \<and> nv > 0 then Some nv else None)
                                       (Patcher [] [])])
                   (lines p))
                (fst (new_sub_patch code nin nout))) of
        Inl e \<Rightarrow> Inl e
      | Inr st \<Rightarrow>
          Inr (Patcher
                 ((boxes (outer st))
                    [length (boxes p) :=
                       Rnbo name inl outl ii oi (if midi \<and> nv > 0 then Some nv else None)
                         (polyphony_step midi nv st)])
                 (lines (outer st)),
               length (boxes p), logged st))"
  using assms
  by (simp add: add_rnbo_object_def Let_def case_prod_beta add_box_def
      cong del: sum.case_cong_weak)

lemma initial_state_sel [simp]:
  "outer (initial_state p sp) = p"
  "sub_patch (initial_state p sp) = sp"
  "logged (initial_state p sp) = []"
  "set_param_pitch (initial_state p sp) = None"
  "set_param_gain (initial_state p sp) = None"
  "set_param_gate (initial_state p sp) = None"
  "is_freq (initial_state p sp) = False"
  "is_gain (initial_state p sp) = False"
  by (simp_all add: initial_state_def)

lemma add_rnbo_object_outer:
  assumes "add_rnbo_object p name code items midi nv test nin nout = Inr (p', r, lg)"
  shows "r = length (boxes p)" and "extends p p'" and "r < length (boxes p')"
    and "no_adc p \<longrightarrow> no_adc p'"
    and "\<exists>inl outl ii oi sp.
           generate_io_info midi nin nout = Inr (inl, outl, ii, oi) \<and>
           boxes p' ! r = Rnbo name inl outl ii oi (if midi \<and> nv > 0 then Some nv else None) sp"
proof -
  define poly where "poly = (if midi \<and> nv > 0 then Some nv else None)"
  obtain inl outl ii oi where g: "generate_io_info midi nin nout = Inr (inl, outl, ii, oi)"
    using assms by (cases "generate_io_info midi nin nout") (auto simp: add_rnbo_object_Inl)
  obtain its where its: "items = Some its"
    using assms g by (cases items) (simp_all add: add_rnbo_object_None)
  define p0 where "p0 = Patcher (boxes p @ [Rnbo name inl outl ii oi poly (Patcher [] [])]) (lines p)"
  define st0 where "st0 = initial_state p0 (fst (new_sub_patch code nin nout))"
  have eq: "add_rnbo_object p name code items midi nv test nin nout =
     (case add_params midi nv test (length (boxes p)) 0 its st0 of
        Inl e \<Rightarrow> Inl e
      | Inr st \<Rightarrow>
          Inr (Patcher ((boxes (outer st))
                 [length (boxes p) := Rnbo name inl outl ii oi poly (polyphony_step midi nv st)])
                 (lines (outer st)),
               length (boxes p), logged st))"
    unfolding its add_rnbo_object_eq[OF g] st0_def p0_def poly_def ..
  obtain st where st: "add_params midi nv test (length (boxes p)) 0 its st0 = Inr st"
    using assms unfolding eq by (cases "add_params midi nv test (length (boxes p)) 0 its st0") simp_all
  from assms have p': "p' = Patcher ((boxes (outer st))
                 [length (boxes p) := Rnbo name inl outl ii oi poly (polyphony_step midi nv st)])
                 (lines (outer st))" and r: "r = length (boxes p)"
    unfolding eq st by auto
  from add_params_outer[OF st] have e: "extends p0 (outer st)"
    and a: "no_adc p0 \<longrightarrow> no_adc (outer st)" by (simp_all add: st0_def)
  from e obtain bs ls where
    bs: "boxes (outer st) = boxes p @ [Rnbo name inl outl ii oi poly (Patcher [] [])] @ bs" and
    ls: "lines (outer st) = lines p @ ls"
    by (auto simp: extends_def prefix_def p0_def)
  have b': "boxes p' = boxes p @ [Rnbo name inl outl ii oi poly (polyphony_step midi nv st)] @ bs"
    by (simp add: p' bs list_update_append)
  have l': "lines p' = lines p @ ls" by (simp add: p' ls)
  have 1: "extends p p'" by (simp add: extends_def b' l')
  have 2: "r < length (boxes p')" by (simp add: b' r)
  have 3: "boxes p' ! r = Rnbo name inl outl ii oi poly (polyphony_step midi nv st)"
    by (simp add: b' r nth_append)
  have 4: "no_adc p \<longrightarrow> no_adc p'"
  proof
    assume "no_adc p"
    then have "no_adc p0" by (simp add: no_adc_def is_adc_def p0_def)
    with a have "no_adc (outer st)" by simp
    then show "no_adc p'" by (auto simp: no_adc_def b' bs is_adc_def)
  qed
  show "r = length (boxes p)" by (rule r)
  show "extends p p'" by (rule 1)
  show "r < length (boxes p')" by (rule 2)
  show "no_adc p \<longrightarrow> no_adc p'" by (rule 4)
  from 3 g show "\<exists>inl outl ii oi sp.
           generate_io_info midi nin nout = Inr (inl, outl, ii, oi) \<and>
           boxes p' ! r = Rnbo name inl outl ii oi (if midi \<and> nv > 0 then Some nv else None) sp"
    unfolding poly_def by blast
qed

subsection \<open>DSP to effect channel adaptation\<close>

text \<open>
  Claim C4. \<^verbatim>\<open>connect_dsp_effect\<close> with the channel pair (2, 1) adds exactly two lines,
  from DSP outlets 0 and 1 to inlet 0 of the effect; with (1, 2) exactly two lines from
  DSP outlet 0 to effect inlets 0 and 1; with (1, 1) exactly one line from outlet 0 to
  inlet 0; with (2, 2) exactly the two parallel lines. It never adds a box, and for any
  other pair of channel counts it leaves the patcher as it is.
\<close>

theorem connect_dsp_effect_edges:
  "lines (connect_dsp_effect p d e 2 1) =
     lines p @ [\<lparr>src = d, outlet = 0, dst = e, inlet = 0\<rparr>, \<lparr>src = d, outlet = 1, dst = e, inlet = 0\<rparr>]
   \<and> lines (connect_dsp_effect p d e 1 2) =
     lines p @ [\<lparr>src = d, outlet = 0, dst = e, inlet = 0\<rparr>, \<lparr>src = d, outlet = 0, dst = e, inlet = 1\<rparr>]
   \<and> lines (connect_dsp_effect p d e 1 1) = lines p @ [\<lparr>src = d, outlet = 0, dst = e, inlet = 0\<rparr>]
   \<and> lines (connect_dsp_effect p d e 2 2) =
     lines p @ [\<lparr>src = d, outlet = 0, dst = e, inlet = 0\<rparr>, \<lparr>src = d, outlet = 1, dst = e, inlet = 1\<rparr>]
   \<and> boxes (connect_dsp_effect p d e n m) = boxes p
   \<and> ((n, m) \<notin> {(1, 1), (1, 2), (2, 1), (2, 2)} \<longrightarrow> connect_dsp_effect p d e n m = p)"
  by (simp add: connect_dsp_effect_def)

theorem connect_dsp_effect_edges_witness:
  "(3::int, 1::int) \<notin> {(1, 1), (1, 2), (2, 1), (2, 2)} \<and>
   connect_dsp_effect (Patcher [Comment ''c''] []) 0 1 3 1 = Patcher [Comment ''c''] []"
  using connect_dsp_effect_edges [of "Patcher [Comment ''c''] []" 0 1 3 1] by simp

subsection \<open>Voice count selection\<close>

text \<open>
  Claim C9 says that with both effect files given and no voice count on the command
  line the selection of the voice count is well defined. In the code it is not: the
  branch with an effect compares \<^verbatim>\<open>None\<close> with \<^verbatim>\<open>0\<close> and the call raises
  \<^verbatim>\<open>TypeError\<close> whatever the other arguments are, while the expression of the branch
  without an effect yields the voice count of the JSON options or \<open>-1\<close>.
\<close>

theorem effect_branch_without_nvoices_raises:
  "load_files_create_rnbo_patch dsp_name dsp_codebox dsp_json (Some effect_code) (Some effect_json)
      export_path cpp_filename midi None compile test = Inl TypeError
   \<and> nvoices_without_effect None opt = Inr (json_nvoices_or_minus1 opt)"
  by (simp add: load_files_create_rnbo_patch_def nvoices_with_effect_def nvoices_without_effect_def)

subsection \<open>Port planner on degenerate channel counts\<close>

text \<open>
  Claim C10 says that \<^verbatim>\<open>generate_io_info\<close> returns for every flag and all non-negative
  channel counts and that the MIDI outlet entry has an index and tag of its own. In the
  code, with MIDI and neither inputs nor outputs the loop variable is read before it is
  bound and the call raises \<^verbatim>\<open>UnboundLocalError\<close>; with one input and two outputs the
  MIDI outlet entry repeats index 2 and tag \<^verbatim>\<open>out2\<close> of the last signal outlet.
\<close>

theorem generate_io_info_midi_no_channels_raises:
  "generate_io_info True 0 0 = Inl UnboundLocalError
   \<and> generate_io_info True 1 2 =
       Inr (2, 5,
            [\<lparr>comment = [], index = 1, tag = ''in1'', io_type = ''signal''\<rparr>,
             \<lparr>comment = [], index = 2, tag = ''in2'', io_type = ''midi''\<rparr>],
            [\<lparr>comment = [], index = 1, tag = ''out1'', io_type = ''signal''\<rparr>,
             \<lparr>comment = [], index = 2, tag = ''out2'', io_type = ''signal''\<rparr>,
             \<lparr>comment = [], index = 2, tag = ''out2'', io_type = ''midi''\<rparr>])"
  by code_simp

text \<open>
  Claim C3 says that with MIDI the outlet metadata places the MIDI outlet at index
  \<open>num_outlets - 3\<close>, the port \<^verbatim>\<open>connect_midi\<close> uses. In the code the MIDI outlet entry
  takes the index left in the loop variable: with three inputs and no output the plan
  has four outlets, the MIDI port is outlet 1 (counted from 0), and the entry carries
  index 3 and tag \<^verbatim>\<open>out3\<close>, left over from the loop over the inlets.
\<close>

theorem midi_outlet_entry_takes_inlet_loop_index:
  "generate_io_info True 3 0 =
     Inr (4, 4,
          [\<lparr>comment = [], index = 1, tag = ''in1'', io_type = ''signal''\<rparr>,
           \<lparr>comment = [], index = 2, tag = ''in2'', io_type = ''signal''\<rparr>,
           \<lparr>comment = [], index = 3, tag = ''in3'', io_type = ''signal''\<rparr>,
           \<lparr>comment = [], index = 4, tag = ''in4'', io_type = ''midi''\<rparr>],
          [\<lparr>comment = [], index = 3, tag = ''out3'', io_type = ''midi''\<rparr>])"
  by code_simp

subsection \<open>MIDI control of a pitch-bend parameter\<close>

text \<open>
  Claim C2 says that for a pitch-bend binding the output chain rescales the range of
  the parameter back onto the bipolar device range from -1 to 1. In the code the input
  node is \<^verbatim>\<open>scale -1 1 min max\<close> but the output node is \<^verbatim>\<open>scale min max -1 -1\<close>: its
  target range is the single value -1.
\<close>

theorem pitchwheel_output_scale_is_minus1_minus1:
  "add_midi_control (item\<lparr>midi_info := ''pitchwheel'' # args\<rparr>) sp set_param codebox =
     (True,
      Patcher
        (boxes sp @
           [Textbox (''bendin @bendmode 1 '' @ join_sp args) None None,
            Textbox (''bendout @bendmode 1 '' @ join_sp args) None None,
            Textbox (''scale -1 1 '' @ str_int (item_min item) @ '' '' @ str_int (item_max item))
              None None,
            Textbox (''scale '' @ str_int (item_min item) @ '' '' @ str_int (item_max item)
                       @ '' -1 -1'') None None])
        (lines sp @
           [\<lparr>src = length (boxes sp), outlet = 0, dst = length (boxes sp) + 2, inlet = 0\<rparr>,
            \<lparr>src = length (boxes sp) + 2, outlet = 0, dst = set_param, inlet = 0\<rparr>,
            \<lparr>src = codebox, outlet = 0, dst = length (boxes sp) + 3, inlet = 0\<rparr>,
            \<lparr>src = length (boxes sp) + 3, outlet = 0, dst = length (boxes sp) + 1, inlet = 0\<rparr>]),
      [])"
  by (simp add: add_midi_control_def midi_mapping_def add_textbox_def add_box_def add_line_def
        Let_def)

subsection \<open>The stages of the assembly\<close>

lemma connect_midi_sel [simp]:
  "boxes (connect_midi p r mi mo) = boxes p"
  "lines (connect_midi p r mi mo) =
     lines p @ [\<lparr>src = mi, outlet = 0, dst = r, inlet = numinlets (boxes p ! r) - 1\<rparr>,
                \<lparr>src = r, outlet = numoutlets (boxes p ! r) - 3, dst = mo, inlet = 0\<rparr>]"
  by (simp_all add: connect_midi_def Let_def)

lemma extends_connect_midi [simp]: "extends p q \<Longrightarrow> extends p (connect_midi q r mi mo)"
  by (simp add: extends_def)

lemma connect_dsp_effect_boxes [simp]: "boxes (connect_dsp_effect p d e n m) = boxes p"
  by (simp add: connect_dsp_effect_def)

lemma extends_connect_dsp_effect [simp]:
  "extends p q \<Longrightarrow> extends p (connect_dsp_effect q d e n m)"
  by (simp add: connect_dsp_effect_def)

lemma no_adc_same_boxes: "boxes q = boxes p \<Longrightarrow> no_adc q = no_adc p"
  by (simp add: no_adc_def)

lemma add_compile_test_grows:
  "extends p (add_compile_test p r ep cf)" "no_adc p \<Longrightarrow> no_adc (add_compile_test p r ep cf)"
  by (simp_all add: add_compile_test_def Let_def case_prod_beta extends_def no_adc_def is_adc_def)

lemma create_audio_output_sel:
  "boxes (create_audio_output p r n) =
     boxes p @ [Textbox ''toggle'' None None, Textbox (''dac~ '' @ channel_numbers n) (Some n) None]"
  "lines (create_audio_output p r n) =
     lines p @ [\<lparr>src = length (boxes p), outlet = 0, dst = Suc (length (boxes p)), inlet = 0\<rparr>]
       @ map (\<lambda>i. \<lparr>src = r, outlet = i, dst = Suc (length (boxes p)), inlet = i\<rparr>) [0..n - 1]"
  by (simp_all add: create_audio_output_def Let_def case_prod_beta fold_add_line_from)

lemma create_audio_input_sel:
  "boxes (create_audio_input p r n) =
     boxes p @ [Textbox (''adc~ '' @ channel_numbers n) None (Some n)]"
  "lines (create_audio_input p r n) =
     lines p @ map (\<lambda>i. \<lparr>src = length (boxes p), outlet = i, dst = r, inlet = i\<rparr>) [0..n - 1]"
  by (simp_all add: create_audio_input_def Let_def case_prod_beta fold_add_line_from)

lemma add_global_midi_cases:
  "add_global_midi False p d = (p, None)"
  "add_global_midi True p d =
     (Patcher (boxes p @ [Textbox ''midiin'' None None, Textbox ''midiout'' None None])
        (lines p @ [\<lparr>src = length (boxes p), outlet = 0, dst = d,
                      inlet = numinlets ((boxes p @ [Textbox ''midiin'' None None, Textbox ''midiout'' None None]) ! d) - 1\<rparr>,
                    \<lparr>src = d, outlet = numoutlets ((boxes p @ [Textbox ''midiin'' None None, Textbox ''midiout'' None None]) ! d) - 3,
                      dst = Suc (length (boxes p)), inlet = 0\<rparr>]),
      Some (length (boxes p), Suc (length (boxes p))))"
  by (simp_all add: add_global_midi_def Let_def case_prod_beta connect_midi_def add_textbox_def
      add_box_def add_line_def)


lemma add_compile_and_audio_grows:
  "extends p (add_compile_and_audio p d e c ep cf din dout eout)"
proof -
  define pa where "pa = (if c then add_compile_test p d ep cf else p)"
  define pb where "pb = (case e of Some x \<Rightarrow> create_audio_output pa x eout
                          | None \<Rightarrow> create_audio_output pa d dout)"
  have 1: "extends p pa" by (simp add: pa_def add_compile_test_grows)
  have 2: "extends pa pb"
    by (cases e) (simp_all add: pb_def extends_def create_audio_output_sel)
  have eq: "add_compile_and_audio p d e c ep cf din dout eout =
              (if din > 0 then create_audio_input pb d din else pb)"
    unfolding add_compile_and_audio_def pa_def pb_def Let_def ..
  have 3: "extends pb (add_compile_and_audio p d e c ep cf din dout eout)"
    by (simp add: eq extends_def create_audio_input_sel)
  from 1 2 3 show ?thesis using extends_trans by blast
qed

lemma add_effect_absent:
  "\<not> truthy ecode \<Longrightarrow> add_effect p d mio dout midi ecode eitems ein eout = Inr (p, None, [])"
  by (simp add: add_effect_def)

lemma add_effect_present:
  assumes "truthy ecode"
    and "add_effect p d mio dout midi ecode eitems ein eout = Inr (p3, e, lg2)"
  obtains q er where
    "add_rnbo_object p ''Effect'' (the ecode) eitems midi (- 1) False ein eout = Inr (q, er, lg2)"
    "e = Some er"
    "p3 = (case mio of Some (mi, mo) \<Rightarrow> connect_midi (connect_dsp_effect q d er dout ein) er mi mo
           | None \<Rightarrow> connect_dsp_effect q d er dout ein)"
proof -
  obtain q er l where
    a: "add_rnbo_object p ''Effect'' (the ecode) eitems midi (- 1) False ein eout = Inr (q, er, l)"
    using assms
    by (cases "add_rnbo_object p ''Effect'' (the ecode) eitems midi (- 1) False ein eout")
       (auto simp: add_effect_def)
  from assms a have "l = lg2" "e = Some er"
    "p3 = (case mio of Some (mi, mo) \<Rightarrow> connect_midi (connect_dsp_effect q d er dout ein) er mi mo
           | None \<Rightarrow> connect_dsp_effect q d er dout ein)"
    by (auto simp: add_effect_def Let_def)
  with a that show thesis by blast
qed

lemma create_rnbo_patch_Inr:
  assumes "create_rnbo_patch dn ep cf dcode ditems din dout midi nv ecode eitems ein eout c test
             = Inr r"
  obtains p1 d lg1 p2 mio p3 e lg2 where
    "add_rnbo_object (Patcher [Comment ''Faust generated RNBO patch, Copyright (c) 2023 Grame''] [])
       dn dcode (Some ditems) midi nv test din dout = Inr (p1, d, lg1)"
    "add_global_midi midi p1 d = (p2, mio)"
    "add_effect p2 d mio dout midi ecode eitems ein eout = Inr (p3, e, lg2)"
    "res_patcher r = add_compile_and_audio p3 d e c ep cf din dout eout"
    "res_dsp_rnbo r = d" "res_effect_rnbo r = e"
    "res_midi_in r = map_option fst mio" "res_midi_out r = map_option snd mio"
    "res_log r = lg1 @ lg2"
proof -
  let ?p0 = "Patcher [Comment ''Faust generated RNBO patch, Copyright (c) 2023 Grame''] []"
  obtain p1 d lg1 where
    a: "add_rnbo_object ?p0 dn dcode (Some ditems) midi nv test din dout = Inr (p1, d, lg1)"
    using assms
    by (cases "add_rnbo_object ?p0 dn dcode (Some ditems) midi nv test din dout")
       (auto simp: create_rnbo_patch_def add_box_def)
  obtain p2 mio where b: "add_global_midi midi p1 d = (p2, mio)"
    by (cases "add_global_midi midi p1 d")
  obtain p3 e lg2 where c: "add_effect p2 d mio dout midi ecode eitems ein eout = Inr (p3, e, lg2)"
    using assms a b
    by (cases "add_effect p2 d mio dout midi ecode eitems ein eout")
       (auto simp: create_rnbo_patch_def add_box_def)
  from assms a b c have
    "res_patcher r = add_compile_and_audio p3 d e c ep cf din dout eout"
    "res_dsp_rnbo r = d" "res_effect_rnbo r = e"
    "res_midi_in r = map_option fst mio" "res_midi_out r = map_option snd mio"
    "res_log r = lg1 @ lg2"
    by (auto simp: create_rnbo_patch_def add_box_def)
  with a b c that show thesis by blast
qed


subsection \<open>The effect unit\<close>







subsection \<open>Audio terminals\<close>

lemma add_compile_and_audio_eq:
  "add_compile_and_audio p d e c ep cf din dout eout =
     (let pa = (if c then add_compile_test p d ep cf else p);
          pb = create_audio_output pa (case e of Some x \<Rightarrow> x | None \<Rightarrow> d)
                 (case e of Some x \<Rightarrow> eout | None \<Rightarrow> dout)
      in if din > 0 then create_audio_input pb d din else pb)"
  by (cases e) (simp_all add: add_compile_and_audio_def Let_def)

lemma add_compile_and_audio_dac:
  assumes "u = (case e of Some x \<Rightarrow> x | None \<Rightarrow> d)"
    and "n = (case e of Some x \<Rightarrow> eout | None \<Rightarrow> dout)"
  shows "\<exists>a. a < length (boxes (add_compile_and_audio p d e c ep cf din dout eout)) \<and>
           boxes (add_compile_and_audio p d e c ep cf din dout eout) ! a
             = Textbox (''dac~ '' @ channel_numbers n) (Some n) None \<and>
           (\<forall>i\<in>{0..n - 1}. \<lparr>src = u, outlet = i, dst = a, inlet = i\<rparr>
              \<in> set (lines (add_compile_and_audio p d e c ep cf din dout eout)))"
proof -
  define pa where "pa = (if c then add_compile_test p d ep cf else p)"
  define pb where "pb = create_audio_output pa u n"
  have eq: "add_compile_and_audio p d e c ep cf din dout eout =
              (if din > 0 then create_audio_input pb d din else pb)"
    unfolding add_compile_and_audio_eq pa_def pb_def assms Let_def ..
  let ?a = "Suc (length (boxes pa))"
  have "?a < length (boxes (add_compile_and_audio p d e c ep cf din dout eout))"
    by (simp add: eq pb_def create_audio_output_sel create_audio_input_sel)
  moreover have "boxes (add_compile_and_audio p d e c ep cf din dout eout) ! ?a
             = Textbox (''dac~ '' @ channel_numbers n) (Some n) None"
    by (simp add: eq pb_def create_audio_output_sel create_audio_input_sel nth_append)
  moreover have "\<forall>i\<in>{0..n - 1}. \<lparr>src = u, outlet = i, dst = ?a, inlet = i\<rparr>
              \<in> set (lines (add_compile_and_audio p d e c ep cf din dout eout))"
    by (auto simp: eq pb_def create_audio_output_sel create_audio_input_sel)
  ultimately show ?thesis by blast
qed

lemma add_compile_and_audio_adc:
  assumes "din > 0"
  shows "\<exists>bs ls. boxes (add_compile_and_audio p d e c ep cf din dout eout)
                    = bs @ [Textbox (''adc~ '' @ channel_numbers din) None (Some din)] \<and>
                 lines (add_compile_and_audio p d e c ep cf din dout eout)
                    = ls @ map (\<lambda>i. \<lparr>src = length bs, outlet = i, dst = d, inlet = i\<rparr>)
                            [0..din - 1]"
  using assms by (simp add: add_compile_and_audio_eq Let_def create_audio_input_sel)

lemma add_compile_and_audio_no_adc:
  assumes "\<not> din > 0" and "no_adc p"
  shows "no_adc (add_compile_and_audio p d e c ep cf din dout eout)"
proof -
  define pa where "pa = (if c then add_compile_test p d ep cf else p)"
  have "no_adc pa" using assms(2) by (simp add: pa_def add_compile_test_grows)
  then have "no_adc (create_audio_output pa (case e of Some x \<Rightarrow> x | None \<Rightarrow> d)
                 (case e of Some x \<Rightarrow> eout | None \<Rightarrow> dout))"
    by (simp add: no_adc_def create_audio_output_sel is_adc_def)
  then show ?thesis using assms(1)
    unfolding add_compile_and_audio_eq pa_def Let_def by simp
qed


lemma add_global_midi_grows:
  assumes "add_global_midi midi p d = (p2, mio)"
  shows "extends p p2" and "no_adc p \<Longrightarrow> no_adc p2"
  using assms
  by (cases midi; auto simp: add_global_midi_cases extends_def no_adc_def is_adc_def)+

lemma add_effect_grows:
  assumes "add_effect p d mio dout midi ecode eitems ein eout = Inr (p3, e, lg2)"
  shows "extends p p3" and "no_adc p \<Longrightarrow> no_adc p3"
    and "if truthy ecode then \<exists>er. e = Some er else e = None"
proof -
  have "extends p p3 \<and> (no_adc p \<longrightarrow> no_adc p3) \<and>
        (if truthy ecode then \<exists>er. e = Some er else e = None)"
  proof (cases "truthy ecode")
    case False
    with assms show ?thesis by (simp add: add_effect_absent)
  next
    case True
    show ?thesis
    proof (rule add_effect_present[OF True assms])
      fix q er
      assume ar: "add_rnbo_object p ''Effect'' (the ecode) eitems midi (- 1) False ein eout
                    = Inr (q, er, lg2)"
        and e: "e = Some er"
        and p3: "p3 = (case mio of
                 Some (mi, mo) \<Rightarrow> connect_midi (connect_dsp_effect q d er dout ein) er mi mo
               | None \<Rightarrow> connect_dsp_effect q d er dout ein)"
      note o = add_rnbo_object_outer[OF ar]
      have b3: "boxes p3 = boxes q" by (simp add: p3 split: option.splits)
      have q3: "extends q p3" by (simp add: p3 split: option.splits)
      have 1: "extends p p3" using o(2) q3 by (rule extends_trans)
      have 2: "no_adc p \<longrightarrow> no_adc p3" using o(4) by (simp add: no_adc_def b3)
      from 1 2 e True show ?thesis by simp
    qed
  qed
  then show "extends p p3" and "no_adc p \<Longrightarrow> no_adc p3"
    and "if truthy ecode then \<exists>er. e = Some er else e = None" by simp_all
qed

lemma effect_audio_example_value:
  "effect_audio_example =
     Inr \<lparr>res_patcher =
        Patcher
         [Comment ''Faust generated RNBO patch, Copyright (c) 2023 Grame'',
          Rnbo ''d'' 1 4
           [\<lparr>comment = [], index = 1, tag = ''in1'', io_type = ''signal''\<rparr>]
           [\<lparr>comment = [], index = 1, tag = ''out1'', io_type = ''signal''\<rparr>,
            \<lparr>comment = [], index = 2, tag = ''out2'', io_type = ''signal''\<rparr>]
           None
           (Patcher
             [Codebox ''code'', Textbox ''in~ 1'' None None,
              Textbox ''out~ 1'' None None, Textbox ''out~ 2'' None None]
             [\<lparr>src = 1, outlet = 0, dst = 0, inlet = 0\<rparr>,
              \<lparr>src = 0, outlet = 0, dst = 2, inlet = 0\<rparr>,
              \<lparr>src = 0, outlet = 1, dst = 3, inlet = 0\<rparr>]),
          Rnbo ''Effect'' 2 4
           [\<lparr>comment = [], index = 1, tag = ''in1'', io_type = ''signal''\<rparr>,
            \<lparr>comment = [], index = 2, tag = ''in2'', io_type = ''signal''\<rparr>]
           [\<lparr>comment = [], index = 1, tag = ''out1'', io_type = ''signal''\<rparr>,
            \<lparr>comment = [], index = 2, tag = ''out2'', io_type = ''signal''\<rparr>]
           None
           (Patcher
             [Codebox ''fx'', Textbox ''in~ 1'' None None,
              Textbox ''in~ 2'' None None, Textbox ''out~ 1'' None None,
              Textbox ''out~ 2'' None None]
             [\<lparr>src = 1, outlet = 0, dst = 0, inlet = 0\<rparr>,
              \<lparr>src = 2, outlet = 0, dst = 0, inlet = 1\<rparr>,
              \<lparr>src = 0, outlet = 0, dst = 3, inlet = 0\<rparr>,
              \<lparr>src = 0, outlet = 1, dst = 4, inlet = 0\<rparr>]),
          Textbox ''toggle'' None None, Textbox ''dac~ 1 2'' (Some 2) None,
          Textbox ''adc~ 1'' None (Some 1)]
         [\<lparr>src = 1, outlet = 0, dst = 2, inlet = 0\<rparr>,
          \<lparr>src = 1, outlet = 1, dst = 2, inlet = 1\<rparr>,
          \<lparr>src = 3, outlet = 0, dst = 4, inlet = 0\<rparr>,
          \<lparr>src = 2, outlet = 0, dst = 4, inlet = 0\<rparr>,
          \<lparr>src = 2, outlet = 1, dst = 4, inlet = 1\<rparr>,
          \<lparr>src = 5, outlet = 0, dst = 1, inlet = 0\<rparr>],
        res_dsp_rnbo = 1, res_midi_in = None, res_midi_out = None,
        res_effect_rnbo = Some 2, res_log = []\<rparr>"
  unfolding effect_audio_example_def by code_simp

text \<open>
  Claim C6 says that the audio input is wired, like the audio output, to the unit that
  is last in the chain. In the example the effect (box 2) is last and the audio output
  (box 4) is fed from it, but the only line that leaves the audio input (box 5) goes to
  the DSP (box 1).
\<close>

theorem audio_input_on_last_unit_counterexample:
  "res_dsp_rnbo (projr effect_audio_example) = 1
   \<and> res_effect_rnbo (projr effect_audio_example) = Some 2
   \<and> title (boxes (res_patcher (projr effect_audio_example)) ! 1) = ''d''
   \<and> title (boxes (res_patcher (projr effect_audio_example)) ! 2) = ''Effect''
   \<and> boxes (res_patcher (projr effect_audio_example)) ! 5 = Textbox ''adc~ 1'' None (Some 1)
   \<and> lines (res_patcher (projr effect_audio_example)) =
        [\<lparr>src = 1, outlet = 0, dst = 2, inlet = 0\<rparr>,
         \<lparr>src = 1, outlet = 1, dst = 2, inlet = 1\<rparr>,
         \<lparr>src = 3, outlet = 0, dst = 4, inlet = 0\<rparr>,
         \<lparr>src = 2, outlet = 0, dst = 4, inlet = 0\<rparr>,
         \<lparr>src = 2, outlet = 1, dst = 4, inlet = 1\<rparr>,
         \<lparr>src = 5, outlet = 0, dst = 1, inlet = 0\<rparr>]"
  by (simp add: effect_audio_example_value)

text \<open>
  Claim C6 as amended. In the patch that is built, the audio output box has one inlet
  for each output of the last unit (the effect if its codebox is given, the DSP
  otherwise) and outlet \<open>i\<close> of that unit is connected to its inlet \<open>i\<close>. When the DSP
  has inputs, the audio input box is the last box of the patch and its outlet \<open>i\<close> is
  connected to inlet \<open>i\<close> of the DSP, whether or not there is an effect; when the DSP
  has no inputs, the patch has no audio input box.
\<close>

theorem audio_output_on_last_unit_audio_input_on_dsp:
  assumes run: "create_rnbo_patch dsp_name export_path cpp_filename dsp_code dsp_items
                  dsp_in dsp_out midi nvoices effect_code effect_items effect_in effect_out
                  compile test = Inr r"
  shows "\<exists>u n a.
           (if truthy effect_code then res_effect_rnbo r = Some u \<and> n = effect_out
            else res_effect_rnbo r = None \<and> u = res_dsp_rnbo r \<and> n = dsp_out) \<and>
           a < length (boxes (res_patcher r)) \<and>
           boxes (res_patcher r) ! a = Textbox (''dac~ '' @ channel_numbers n) (Some n) None \<and>
           (\<forall>i\<in>{0..n - 1}. \<lparr>src = u, outlet = i, dst = a, inlet = i\<rparr>
              \<in> set (lines (res_patcher r))) \<and>
           title (boxes (res_patcher r) ! res_dsp_rnbo r) = dsp_name \<and>
           (if dsp_in > 0 then
              \<exists>bs ls. boxes (res_patcher r)
                         = bs @ [Textbox (''adc~ '' @ channel_numbers dsp_in) None (Some dsp_in)] \<and>
                      lines (res_patcher r)
                         = ls @ map (\<lambda>i. \<lparr>src = length bs, outlet = i,
                                           dst = res_dsp_rnbo r, inlet = i\<rparr>) [0..dsp_in - 1]
            else no_adc (res_patcher r))"
proof (rule create_rnbo_patch_Inr[OF run])
  fix p1 d lg1 p2 mio p3 e lg2
  let ?p0 = "Patcher [Comment ''Faust generated RNBO patch, Copyright (c) 2023 Grame''] []"
  assume ar: "add_rnbo_object ?p0 dsp_name dsp_code (Some dsp_items) midi nvoices test
                dsp_in dsp_out = Inr (p1, d, lg1)"
    and gm: "add_global_midi midi p1 d = (p2, mio)"
    and ae: "add_effect p2 d mio dsp_out midi effect_code effect_items effect_in effect_out
               = Inr (p3, e, lg2)"
    and rp: "res_patcher r = add_compile_and_audio p3 d e compile export_path cpp_filename
               dsp_in dsp_out effect_out"
    and rd: "res_dsp_rnbo r = d"
    and re: "res_effect_rnbo r = e"
  note o = add_rnbo_object_outer[OF ar]
  have n0: "no_adc ?p0" by (simp add: no_adc_def is_adc_def)
  with o(4) have n1: "no_adc p1" by simp
  have n2: "no_adc p2" using add_global_midi_grows(2)[OF gm n1] .
  have n3: "no_adc p3" using add_effect_grows(2)[OF ae n2] .
  have e13: "extends p1 p3"
    using add_global_midi_grows(1)[OF gm] add_effect_grows(1)[OF ae] by (rule extends_trans)
  have e1f: "extends p1 (res_patcher r)"
    unfolding rp using e13 add_compile_and_audio_grows by (rule extends_trans)
  from o(5) have "title (boxes p1 ! d) = dsp_name" by auto
  with extends_nth[OF e1f o(3)] have t: "title (boxes (res_patcher r) ! d) = dsp_name" by simp
  define u where "u = (case e of Some x \<Rightarrow> x | None \<Rightarrow> d)"
  define n where "n = (case e of Some x \<Rightarrow> effect_out | None \<Rightarrow> dsp_out)"
  from add_compile_and_audio_dac[OF u_def n_def, of p3 compile export_path cpp_filename dsp_in]
  obtain a where a: "a < length (boxes (res_patcher r))"
    "boxes (res_patcher r) ! a = Textbox (''dac~ '' @ channel_numbers n) (Some n) None"
    "\<forall>i\<in>{0..n - 1}. \<lparr>src = u, outlet = i, dst = a, inlet = i\<rparr> \<in> set (lines (res_patcher r))"
    unfolding rp by blast
  have un: "if truthy effect_code then res_effect_rnbo r = Some u \<and> n = effect_out
            else res_effect_rnbo r = None \<and> u = res_dsp_rnbo r \<and> n = dsp_out"
    using add_effect_grows(3)[OF ae] by (auto simp: u_def n_def re rd split: if_splits)
  have adc: "if dsp_in > 0 then
              \<exists>bs ls. boxes (res_patcher r)
                         = bs @ [Textbox (''adc~ '' @ channel_numbers dsp_in) None (Some dsp_in)] \<and>
                      lines (res_patcher r)
                         = ls @ map (\<lambda>i. \<lparr>src = length bs, outlet = i,
                                           dst = res_dsp_rnbo r, inlet = i\<rparr>) [0..dsp_in - 1]
            else no_adc (res_patcher r)"
    unfolding rp rd
    using add_compile_and_audio_adc[of dsp_in p3 d e compile export_path cpp_filename dsp_out effect_out]
      add_compile_and_audio_no_adc[OF _ n3, of dsp_in d e compile export_path cpp_filename dsp_out effect_out]
    by (cases "dsp_in > 0") simp_all
  show ?thesis
    apply (rule exI[of _ u], rule exI[of _ n], rule exI[of _ a])
    using un a t adc unfolding rd by simp
qed


theorem audio_output_on_last_unit_audio_input_on_dsp_witness:
  "create_rnbo_patch ''d'' ''x'' ''y'' ''code'' [] 1 2 False 0 (Some ''fx'') (Some []) 2 2
       False False = Inr (projr effect_audio_example)
   \<and> truthy (Some ''fx'')
   \<and> res_effect_rnbo (projr effect_audio_example) = Some 2
   \<and> boxes (res_patcher (projr effect_audio_example)) ! 4 = Textbox ''dac~ 1 2'' (Some 2) None
   \<and> \<lparr>src = 2, outlet = 0, dst = 4, inlet = 0\<rparr>
        \<in> set (lines (res_patcher (projr effect_audio_example)))
   \<and> \<lparr>src = 2, outlet = 1, dst = 4, inlet = 1\<rparr>
        \<in> set (lines (res_patcher (projr effect_audio_example)))
   \<and> last (boxes (res_patcher (projr effect_audio_example))) = Textbox ''adc~ 1'' None (Some 1)
   \<and> last (lines (res_patcher (projr effect_audio_example)))
        = \<lparr>src = 5, outlet = 0, dst = res_dsp_rnbo (projr effect_audio_example), inlet = 0\<rparr>"
proof -
  have run: "create_rnbo_patch ''d'' ''x'' ''y'' ''code'' [] 1 2 False 0 (Some ''fx'') (Some []) 2 2
               False False = Inr (projr effect_audio_example)"
    unfolding effect_audio_example_def[symmetric] by (simp add: effect_audio_example_value)
  from audio_output_on_last_unit_audio_input_on_dsp[OF run] run
  show ?thesis by (simp add: effect_audio_example_value truthy_def)
qed

subsection \<open>Parameters with an unsupported MIDI control class\<close>











subsection \<open>The sub-patcher during the parameter loop\<close>

lemma loop_box_simps [simp]:
  "loop_box (Textbox (''set '' @ x) None None)"
  "loop_box (Textbox (''param '' @ x) None None)"
  "loop_box (Textbox (''scale '' @ x) None None)"
  by (simp_all add: loop_box_def)

lemma loop_box_cons [simp]:
  "loop_box (Textbox (CHR ''s'' # CHR ''e'' # CHR ''t'' # CHR '' '' # x) None None)"
  "loop_box (Textbox (CHR ''p'' # CHR ''a'' # CHR ''r'' # CHR ''a'' # CHR ''m'' # CHR '' '' # x)
      None None)"
  "loop_box (Textbox (CHR ''s'' # CHR ''c'' # CHR ''a'' # CHR ''l'' # CHR ''e'' # CHR '' '' # x)
      None None)"
  by (simp_all add: loop_box_def)









lemma analyse_shortname_upd [simp]:
  "set_param_pitch (analyse_shortname s k (st\<lparr>outer := p, sub_patch := sp\<rparr>))
     = set_param_pitch (analyse_shortname s k st)"
  "set_param_gain (analyse_shortname s k (st\<lparr>outer := p, sub_patch := sp\<rparr>))
     = set_param_gain (analyse_shortname s k st)"
  "set_param_gate (analyse_shortname s k (st\<lparr>outer := p, sub_patch := sp\<rparr>))
     = set_param_gate (analyse_shortname s k st)"
  "is_freq (analyse_shortname s k (st\<lparr>outer := p, sub_patch := sp\<rparr>))
     = is_freq (analyse_shortname s k st)"
  "is_gain (analyse_shortname s k (st\<lparr>outer := p, sub_patch := sp\<rparr>))
     = is_gain (analyse_shortname s k st)"
  by (simp_all add: analyse_shortname_def)











subsection \<open>The placeholder input\<close>














subsection \<open>The polyphony control of a unit\<close>




















end
